theory Spec2Isabelle
  imports Main "HOL-Library.Word"
begin

section \<open>The mask visualizer of pytorch-segmentation.ipynb\<close>

text \<open>
  The notebook's own logic is the helper \<^verbatim>\<open>display_segmentation(input_image,
  output_predictions)\<close>. It is a straight line of calls into PyTorch, NumPy and Pillow.
  Python objects live on a heap (a list of cells, an address is an index), a call either
  returns a value or raises, and it returns the heap it leaves behind in both cases.
  Each library call is modelled by the function of the same name below.

  Two things are decided by the installed Pillow and not by the notebook, so they are
  parameters of the model (\<open>pillow\<close>): the resampling filter \<^verbatim>\<open>resize\<close> uses by default
  on a mode L image, and the content of a freshly created palette (the entries that
  \<^verbatim>\<open>putpalette\<close> does not overwrite).
\<close>

subsection \<open>Data\<close>

type_synonym byte = "8 word"
type_synonym rgb = "byte \<times> byte \<times> byte"
type_synonym rgba = "byte \<times> byte \<times> byte \<times> byte"
type_synonym 'a raster = "'a list list"
type_synonym palette = "byte \<Rightarrow> rgb"
type_synonym addr = nat

text \<open>A Pillow image: its mode, its size (width, height), its rows of pixels, and for
  mode P the 256-entry palette. Only the modes display_segmentation reaches are modelled.\<close>

datatype image =
    ImageL nat nat "byte raster"
  | ImageP nat nat "byte raster" palette
  | ImageRGB nat nat "rgb raster"
  | ImageRGBA nat nat "rgba raster"

text \<open>A heap cell: a 2-D int64 tensor (rows, columns, data), a 2-D uint8 tensor (the
  NumPy array \<^verbatim>\<open>numpy()\<close> returns is a view on the same storage, hence the same
  cell), or an image.\<close>

datatype pyobj =
    Tensor nat nat "64 word raster"
  | ByteTensor nat nat "byte raster"
  | Image image

datatype error = ValueError | TypeError | AttributeError | NotModelled

type_synonym heap = "pyobj list"
type_synonym 'a py = "heap \<Rightarrow> (error + 'a) \<times> heap"

record pillow =
  resample :: "nat \<times> nat \<Rightarrow> byte raster \<Rightarrow> nat \<times> nat \<Rightarrow> nat \<Rightarrow> nat \<Rightarrow> byte"
  new_palette :: palette

subsection \<open>Sequencing, raising, the heap\<close>

definition py_return :: "'a \<Rightarrow> 'a py" where
  "py_return x h = (Inr x, h)"

definition py_raise :: "error \<Rightarrow> 'a py" where
  "py_raise e h = (Inl e, h)"

definition py_bind :: "'a py \<Rightarrow> ('a \<Rightarrow> 'b py) \<Rightarrow> 'b py" where
  "py_bind m f h = (case m h of (Inl e, h') \<Rightarrow> (Inl e, h') | (Inr x, h') \<Rightarrow> f x h')"

definition alloc :: "pyobj \<Rightarrow> addr py" where
  "alloc v h = (Inr (length h), h @ [v])"

definition get_obj :: "addr \<Rightarrow> pyobj py" where
  "get_obj a h = (if a < length h then (Inr (h ! a), h) else (Inl NotModelled, h))"

definition set_obj :: "addr \<Rightarrow> pyobj \<Rightarrow> unit py" where
  "set_obj a v h = (Inr (), h[a := v])"

definition get_image :: "addr \<Rightarrow> image py" where
  "get_image a = py_bind (get_obj a)
     (\<lambda>ob. case ob of Image im \<Rightarrow> py_return im | _ \<Rightarrow> py_raise AttributeError)"

subsection \<open>PyTorch and NumPy\<close>

text \<open>\<^verbatim>\<open>%\<close> on an int64 tensor is \<^verbatim>\<open>torch.remainder\<close>: the result takes the sign of
  the divisor, as Python's \<^verbatim>\<open>%\<close> and HOL's \<open>mod\<close> on \<open>int\<close> do.\<close>

definition torch_remainder :: "64 word \<Rightarrow> 64 word \<Rightarrow> 64 word" where
  "torch_remainder a b = word_of_int (sint a mod sint b)"

text \<open>\<^verbatim>\<open>palette = torch.tensor([2 ** 25 - 1, 2 ** 15 - 1, 2 ** 21 - 1])\<close>\<close>

definition palette :: "64 word list" where
  "palette = [2 ^ 25 - 1, 2 ^ 15 - 1, 2 ^ 21 - 1]"

text \<open>\<^verbatim>\<open>colors = torch.as_tensor([i for i in range(21)])[:, None] * palette\<close>, then
  \<^verbatim>\<open>colors = (colors % 255).numpy().astype("uint8")\<close>: a 21 by 3 int64 product
  (which wraps at 64 bits), the remainder, the cast to uint8 (the low 8 bits).\<close>

definition colors :: "byte raster" where
  "colors =
     map (map (\<lambda>c. ucast (torch_remainder c 255)))
       (map (\<lambda>i. map (\<lambda>k. i * k) palette) (map of_nat [0..<21]))"

text \<open>\<^verbatim>\<open>t.byte()\<close> is \<^verbatim>\<open>t.to(torch.uint8)\<close>: a new uint8 tensor holding the low 8 bits
  of every element, or \<^verbatim>\<open>t\<close> itself when it is uint8 already.\<close>

definition tensor_byte :: "addr \<Rightarrow> addr py" where
  "tensor_byte a = py_bind (get_obj a)
     (\<lambda>ob. case ob of
        Tensor r c d \<Rightarrow> alloc (ByteTensor r c (map (map ucast) d))
      | ByteTensor r c d \<Rightarrow> py_return a
      | Image im \<Rightarrow> py_raise AttributeError)"

text \<open>\<^verbatim>\<open>t.cpu()\<close> returns \<^verbatim>\<open>t\<close> itself for a tensor in host memory (the notebook
  never moves one to a device); \<^verbatim>\<open>t.numpy()\<close> returns an array over the same storage.\<close>

definition tensor_cpu :: "addr \<Rightarrow> addr py" where
  "tensor_cpu a = py_bind (get_obj a)
     (\<lambda>ob. case ob of Image im \<Rightarrow> py_raise AttributeError | _ \<Rightarrow> py_return a)"

definition tensor_numpy :: "addr \<Rightarrow> addr py" where
  "tensor_numpy a = py_bind (get_obj a)
     (\<lambda>ob. case ob of Image im \<Rightarrow> py_raise AttributeError | _ \<Rightarrow> py_return a)"

subsection \<open>Pillow\<close>

fun image_size :: "image \<Rightarrow> nat \<times> nat" where
  "image_size (ImageL w h d) = (w, h)"
| "image_size (ImageP w h d p) = (w, h)"
| "image_size (ImageRGB w h d) = (w, h)"
| "image_size (ImageRGBA w h d) = (w, h)"

text \<open>\<^verbatim>\<open>im.size\<close>\<close>

definition Image_size :: "addr \<Rightarrow> (nat \<times> nat) py" where
  "Image_size a = py_bind (get_image a) (\<lambda>im. py_return (image_size im))"

text \<open>\<^verbatim>\<open>Image.fromarray(arr)\<close> on a 2-D uint8 array of shape (rows, columns) is a mode L
  image of size (columns, rows) over the array's data; the image is never written to
  here. An int64 array has no Pillow mode (TypeError).\<close>

definition Image_fromarray :: "addr \<Rightarrow> addr py" where
  "Image_fromarray a = py_bind (get_obj a)
     (\<lambda>ob. case ob of
        ByteTensor r c d \<Rightarrow> alloc (Image (ImageL c r d))
      | Tensor r c d \<Rightarrow> py_raise TypeError
      | Image im \<Rightarrow> py_raise NotModelled)"

text \<open>The raster \<^verbatim>\<open>resize\<close> computes: pixel (x, y) of the target is what the
  resampling filter gives there.\<close>

definition resample_raster ::
  "pillow \<Rightarrow> nat \<times> nat \<Rightarrow> byte raster \<Rightarrow> nat \<times> nat \<Rightarrow> byte raster" where
  "resample_raster P sz d tgt =
     map (\<lambda>y. map (\<lambda>x. resample P sz d tgt x y) [0..<fst tgt]) [0..<snd tgt]"

text \<open>\<^verbatim>\<open>im.resize(size)\<close>: a copy when the size is the image's own already; ValueError
  ("height and width must be > 0") for an empty target; a new, resampled image
  otherwise. The receiver in display_segmentation is always the mode L image of
  \<^verbatim>\<open>fromarray\<close>; other modes are not modelled.\<close>

definition resized_raster ::
  "pillow \<Rightarrow> nat \<times> nat \<Rightarrow> byte raster \<Rightarrow> nat \<times> nat \<Rightarrow> byte raster" where
  "resized_raster P sz d tgt = (if sz = tgt then d else resample_raster P sz d tgt)"

definition Image_resize :: "pillow \<Rightarrow> addr \<Rightarrow> nat \<times> nat \<Rightarrow> addr py" where
  "Image_resize P a tgt = py_bind (get_image a)
     (\<lambda>im. case im of
        ImageL w h d \<Rightarrow>
          if (w, h) = tgt then alloc (Image (ImageL w h d))
          else if fst tgt < 1 \<or> snd tgt < 1 then py_raise ValueError
          else alloc (Image (ImageL (fst tgt) (snd tgt) (resample_raster P (w, h) d tgt)))
      | _ \<Rightarrow> py_raise NotModelled)"

text \<open>\<^verbatim>\<open>im.putpalette(data)\<close> takes \<^verbatim>\<open>bytes(data)\<close> (for a 2-D uint8 array: its rows
  one after the other), creates a fresh palette and unpacks the whole RGB triples of
  the data into its first entries. The image becomes mode P in place. More than 256
  entries, or a receiver that is not L or P, is a ValueError.\<close>

definition unpack_palette :: "palette \<Rightarrow> byte list \<Rightarrow> palette" where
  "unpack_palette init bs i =
     (let n = unat i in
      if 3 * n + 2 < length bs then (bs ! (3 * n), bs ! (3 * n + 1), bs ! (3 * n + 2))
      else init i)"

definition Image_putpalette :: "pillow \<Rightarrow> addr \<Rightarrow> byte raster \<Rightarrow> unit py" where
  "Image_putpalette P a data = py_bind (get_image a)
     (\<lambda>im. let bs = concat data in
        if length bs div 3 > 256 then py_raise ValueError
        else case im of
          ImageL w h d \<Rightarrow> set_obj a (Image (ImageP w h d (unpack_palette (new_palette P) bs)))
        | ImageP w h d p \<Rightarrow> set_obj a (Image (ImageP w h d (unpack_palette (new_palette P) bs)))
        | _ \<Rightarrow> py_raise ValueError)"

text \<open>\<^verbatim>\<open>im.copy()\<close>: a new image with the same content.\<close>

definition Image_copy :: "addr \<Rightarrow> addr py" where
  "Image_copy a = py_bind (get_image a) (\<lambda>im. alloc (Image im))"

text \<open>\<^verbatim>\<open>im.putalpha(v)\<close> with a number: in place; an RGB image becomes RGBA, then the
  alpha band is filled with \<open>v\<close>. (An L or P receiver would become LA or PA, which
  \<^verbatim>\<open>alpha_composite\<close> rejects; these modes are not modelled.)\<close>

definition Image_putalpha :: "addr \<Rightarrow> byte \<Rightarrow> unit py" where
  "Image_putalpha a v = py_bind (get_image a)
     (\<lambda>im. case im of
        ImageRGB w h d \<Rightarrow>
          set_obj a (Image (ImageRGBA w h (map (map (\<lambda>(r, g, b). (r, g, b, v))) d)))
      | ImageRGBA w h d \<Rightarrow>
          set_obj a (Image (ImageRGBA w h (map (map (\<lambda>(r, g, b, _). (r, g, b, v))) d)))
      | _ \<Rightarrow> py_raise NotModelled)"

text \<open>\<^verbatim>\<open>im.convert("RGBA")\<close>: a new image; a P pixel becomes its palette entry, a grey
  value is repeated, and the alpha of a source without alpha is 255.\<close>

definition Image_convert_RGBA :: "addr \<Rightarrow> addr py" where
  "Image_convert_RGBA a = py_bind (get_image a)
     (\<lambda>im. case im of
        ImageL w h d \<Rightarrow> alloc (Image (ImageRGBA w h (map (map (\<lambda>v. (v, v, v, 255))) d)))
      | ImageP w h d p \<Rightarrow>
          alloc (Image (ImageRGBA w h (map (map (\<lambda>v. case p v of (r, g, b) \<Rightarrow> (r, g, b, 255))) d)))
      | ImageRGB w h d \<Rightarrow>
          alloc (Image (ImageRGBA w h (map (map (\<lambda>(r, g, b). (r, g, b, 255))) d)))
      | ImageRGBA w h d \<Rightarrow> alloc (Image (ImageRGBA w h d)))"

text \<open>Pillow's AlphaComposite.c, per pixel, with 7 bits of extra precision. The
  intermediate values are UINT32 in the C code; they stay below \<open>2 ^ 32\<close> (at most
  \<open>255 * 255 * 255 * 128\<close>), so they are natural numbers here.\<close>

definition SHIFTFORDIV255 :: "nat \<Rightarrow> nat" where
  "SHIFTFORDIV255 a = ((a div 256) + a) div 256"

definition composite_channel :: "nat \<Rightarrow> nat \<Rightarrow> byte \<Rightarrow> byte \<Rightarrow> byte" where
  "composite_channel coef1 coef2 s d =
     of_nat (SHIFTFORDIV255 (unat s * coef1 + unat d * coef2 + 128 * 128) div 128)"

fun alpha_composite_pixel :: "rgba \<Rightarrow> rgba \<Rightarrow> rgba" where
  "alpha_composite_pixel (dr, dg, db, da) (sr, sg, sb, sa) =
     (if sa = 0 then (dr, dg, db, da)
      else
        let blend = unat da * (255 - unat sa);
            outa255 = unat sa * 255 + blend;
            coef1 = unat sa * 255 * 255 * 128 div outa255;
            coef2 = 255 * 128 - coef1
        in (composite_channel coef1 coef2 sr dr,
            composite_channel coef1 coef2 sg dg,
            composite_channel coef1 coef2 sb db,
            of_nat (SHIFTFORDIV255 (outa255 + 128))))"

text \<open>\<^verbatim>\<open>Image.alpha_composite(im1, im2)\<close>: \<^verbatim>\<open>im2\<close> over \<^verbatim>\<open>im1\<close>, a new RGBA image;
  ValueError unless both are RGBA and of one size.\<close>

definition Image_alpha_composite :: "addr \<Rightarrow> addr \<Rightarrow> addr py" where
  "Image_alpha_composite a1 a2 = py_bind (get_image a1) (\<lambda>im1. py_bind (get_image a2)
     (\<lambda>im2. case (im1, im2) of
        (ImageRGBA w1 h1 d1, ImageRGBA w2 h2 d2) \<Rightarrow>
          if (w1, h1) = (w2, h2)
          then alloc (Image (ImageRGBA w1 h1 (map2 (map2 alpha_composite_pixel) d1 d2)))
          else py_raise ValueError
      | _ \<Rightarrow> py_raise ValueError))"

subsection \<open>display_segmentation\<close>

definition display_segmentation :: "pillow \<Rightarrow> addr \<Rightarrow> addr \<Rightarrow> addr py" where
  "display_segmentation P input_image output_predictions =
     py_bind (tensor_byte output_predictions) (\<lambda>t.
     py_bind (tensor_cpu t) (\<lambda>t.
     py_bind (tensor_numpy t) (\<lambda>arr.
     py_bind (Image_fromarray arr) (\<lambda>r.
     py_bind (Image_size input_image) (\<lambda>sz.
     py_bind (Image_resize P r sz) (\<lambda>r.
     py_bind (Image_putpalette P r colors) (\<lambda>_.
     py_bind (Image_copy input_image) (\<lambda>alpha_image.
     py_bind (Image_putalpha alpha_image 255) (\<lambda>_.
     py_bind (Image_convert_RGBA r) (\<lambda>r.
     py_bind (Image_putalpha r 128) (\<lambda>_.
     Image_alpha_composite alpha_image r)))))))))))"

subsection \<open>The values display_segmentation builds\<close>

text \<open>The palette \<^verbatim>\<open>r\<close> carries after \<^verbatim>\<open>r.putpalette(colors)\<close>.\<close>

definition seg_palette :: "pillow \<Rightarrow> palette" where
  "seg_palette P = unpack_palette (new_palette P) (concat colors)"

text \<open>The raster of \<^verbatim>\<open>r\<close> after \<^verbatim>\<open>Image.fromarray(output_predictions.byte()...)
  .resize(input_image.size)\<close>: the labels, cast to uint8 and brought to size \<open>tgt\<close>.\<close>

definition label_layer ::
  "pillow \<Rightarrow> nat \<times> nat \<Rightarrow> 64 word raster \<Rightarrow> nat \<times> nat \<Rightarrow> byte raster" where
  "label_layer P sz g tgt = resized_raster P sz (map (map ucast) g) tgt"

text \<open>The raster of \<^verbatim>\<open>r\<close> after \<^verbatim>\<open>r = r.convert("RGBA")\<close> and \<^verbatim>\<open>r.putalpha(128)\<close>.\<close>

definition mask_layer :: "pillow \<Rightarrow> byte raster \<Rightarrow> rgba raster" where
  "mask_layer P d =
     map (map (\<lambda>(r, g, b, _). (r, g, b, 128)))
       (map (map (\<lambda>v. case seg_palette P v of (r, g, b) \<Rightarrow> (r, g, b, 255 :: byte))) d)"

text \<open>The raster of \<^verbatim>\<open>alpha_image\<close> after \<^verbatim>\<open>alpha_image.putalpha(255)\<close>.\<close>

definition base_layer :: "rgb raster \<Rightarrow> rgba raster" where
  "base_layer d = map (map (\<lambda>(r, g, b). (r, g, b, 255))) d"

text \<open>The raster of \<^verbatim>\<open>seg_image\<close>.\<close>

definition composite_raster :: "pillow \<Rightarrow> rgb raster \<Rightarrow> byte raster \<Rightarrow> rgba raster" where
  "composite_raster P px d = map2 (map2 alpha_composite_pixel) (base_layer px) (mask_layer P d)"

subsection \<open>Vocabulary of the properties\<close>

text \<open>A raster of width \<open>w\<close> and height \<open>h\<close>: \<open>h\<close> rows of \<open>w\<close> pixels.\<close>

definition wf_raster :: "nat \<Rightarrow> nat \<Rightarrow> 'a raster \<Rightarrow> bool" where
  "wf_raster w h d = (length d = h \<and> list_all (\<lambda>row. length row = w) d)"

definition alpha_of :: "rgba \<Rightarrow> byte" where
  "alpha_of p = (case p of (r, g, b, a) \<Rightarrow> a)"

text \<open>A channel value \<open>c\<close> is the mean of \<open>b\<close> and \<open>m\<close>, rounded down or up: the blend of
  the two at 50 percent, whatever the rounding convention.\<close>

definition half_blend :: "byte \<Rightarrow> byte \<Rightarrow> byte \<Rightarrow> bool" where
  "half_blend b m c =
     (unat c = (unat b + unat m) div 2 \<or> unat c = (unat b + unat m + 1) div 2)"

subsection \<open>Two instances of the library\<close>

text \<open>The instances serve as concrete libraries where a closed statement needs one; they
  are applied only to inputs on which the stated result does not depend on the filter
  (\<^verbatim>\<open>resize\<close> copies, or raises, or only the size is stated). Their filter is nearest-neighbour sampling at the pixel centres (Pillow's NEAREST,
  the default of \<^verbatim>\<open>resize\<close> before Pillow 7.0; later releases resample a mode L
  image with BICUBIC), reading 0 outside the source.\<close>

definition nearest :: "nat \<times> nat \<Rightarrow> byte raster \<Rightarrow> nat \<times> nat \<Rightarrow> nat \<Rightarrow> nat \<Rightarrow> byte" where
  "nearest sz d tgt x y =
     (let yy = (2 * y + 1) * snd sz div (2 * snd tgt);
          xx = (2 * x + 1) * fst sz div (2 * fst tgt)
      in if yy < length d \<and> xx < length (d ! yy) then d ! yy ! xx else 0)"

text \<open>A new palette is the grey ramp in older Pillow releases (ImagingPaletteNew,
  "initialize to ramp") and all zero in newer ones.\<close>

definition grey_ramp :: palette where
  "grey_ramp i = (i, i, i)"

definition zero_palette :: palette where
  "zero_palette i = (0, 0, 0)"

definition pillow_ramp :: pillow where
  "pillow_ramp = \<lparr>resample = nearest, new_palette = grey_ramp\<rparr>"

definition pillow_zero :: pillow where
  "pillow_zero = \<lparr>resample = nearest, new_palette = zero_palette\<rparr>"

section \<open>Properties\<close>

subsection \<open>The colour table\<close>

lemma colors_eq:
  "colors =
    [[0, 0, 0], [1, 127, 31], [2, 254, 62], [3, 126, 93], [4, 253, 124], [5, 125, 155],
     [6, 252, 186], [7, 124, 217], [8, 251, 248], [9, 123, 24], [10, 250, 55],
     [11, 122, 86], [12, 249, 117], [13, 121, 148], [14, 248, 179], [15, 120, 210],
     [16, 247, 241], [17, 119, 17], [18, 246, 48], [19, 118, 79], [20, 245, 110]]"
  by (simp add: colors_def palette_def torch_remainder_def upt_rec)

lemma length_concat_colors: "length (concat colors) = 63"
  by (simp add: colors_eq)

subsection \<open>One run of display_segmentation\<close>

lemmas py_defs = py_bind_def py_return_def py_raise_def alloc_def get_obj_def set_obj_def
  get_image_def

lemmas call_defs = display_segmentation_def tensor_byte_def tensor_cpu_def tensor_numpy_def
  Image_fromarray_def Image_size_def Image_resize_def Image_putpalette_def Image_copy_def
  Image_putalpha_def Image_convert_RGBA_def Image_alpha_composite_def

text \<open>On an RGB base image and an int64 label grid the call returns unless the base image
  is empty and of another size than the grid. It leaves six new objects behind: the
  uint8 tensor, the mode L image over it, \<^verbatim>\<open>r\<close> (resized, with its palette),
  \<^verbatim>\<open>alpha_image\<close>, the RGBA \<^verbatim>\<open>r\<close> and \<^verbatim>\<open>seg_image\<close>.\<close>

lemma display_segmentation_run:
  assumes "ai < length h" "ag < length h"
    and "h ! ai = Image (ImageRGB W H px)"
    and "h ! ag = Tensor rows cols g"
    and "(cols, rows) = (W, H) \<or> (0 < W \<and> 0 < H)"
  shows "display_segmentation P ai ag h =
    (Inr (length h + 5),
     h @ [ByteTensor rows cols (map (map ucast) g),
          Image (ImageL cols rows (map (map ucast) g)),
          Image (ImageP W H (label_layer P (cols, rows) g (W, H)) (seg_palette P)),
          Image (ImageRGBA W H (base_layer px)),
          Image (ImageRGBA W H (mask_layer P (label_layer P (cols, rows) g (W, H)))),
          Image (ImageRGBA W H (composite_raster P px (label_layer P (cols, rows) g (W, H))))])"
  using assms
  by (auto simp add: call_defs py_defs nth_append length_concat_colors seg_palette_def
      label_layer_def mask_layer_def base_layer_def composite_raster_def resized_raster_def
      list_update_append comp_def)

lemma display_segmentation_fail:
  assumes "ai < length h" "ag < length h"
    and "h ! ai = Image (ImageRGB W H px)"
    and "h ! ag = Tensor rows cols g"
    and "(cols, rows) \<noteq> (W, H)" "W = 0 \<or> H = 0"
  shows "display_segmentation P ai ag h =
    (Inl ValueError,
     h @ [ByteTensor rows cols (map (map ucast) g),
          Image (ImageL cols rows (map (map ucast) g))])"
  using assms by (auto simp add: call_defs py_defs nth_append)

subsection \<open>The compositing arithmetic at alpha 255 under alpha 128\<close>

lemma alpha_composite_pixel_half:
  "alpha_composite_pixel (dr, dg, db, 255) (sr, sg, sb, 128) =
     (composite_channel 16384 16256 sr dr, composite_channel 16384 16256 sg dg,
      composite_channel 16384 16256 sb db, 255)"
  by (simp add: SHIFTFORDIV255_def Let_def)

lemma shiftdiv_closed:
  fixes N :: nat
  assumes "1 \<le> N" "N \<le> 65280"
  shows "SHIFTFORDIV255 (128 * N) div 128 = (N - 1) div 255"
proof -
  define q where "q = (N - 1) div 255"
  define r where "r = (N - 1) mod 255"
  define k where "k = N div 2"
  have N: "N = 255 * q + r + 1" and r: "r < 255"
    using assms by (simp_all add: q_def r_def)
  have q: "q \<le> 255" using assms by (simp add: q_def)
  have k: "2 * k \<le> N" "N \<le> 2 * k + 1" by (simp_all add: k_def)
  have "SHIFTFORDIV255 (128 * N) div 128 = (k + 128 * N) div 32768"
    by (simp add: SHIFTFORDIV255_def div_mult2_eq k_def)
  also have "\<dots> = q"
  proof (rule div_nat_eqI)
    show "32768 * q \<le> k + 128 * N" using N r q k by linarith
    have "k + 128 * N < 32768 * q + 32768" using N r q k by linarith
    then show "k + 128 * N < 32768 * Suc q" by simp
  qed
  finally show ?thesis by (simp add: q_def)
qed

lemma composite_channel_half:
  "unat (composite_channel 16384 16256 s d) = (128 * unat s + 127 * unat d + 127) div 255"
proof -
  have s: "unat s < 256" and d: "unat d < 256"
    using unsigned_less [of s, where ?'a = nat] unsigned_less [of d, where ?'a = nat]
    by simp_all
  define N where "N = 128 * unat s + 127 * unat d + 128"
  have "unat s * 16384 + unat d * 16256 + 128 * 128 = 128 * N" by (simp add: N_def)
  moreover have "1 \<le> N" "N \<le> 65280" using s d by (simp_all add: N_def)
  ultimately have
    "SHIFTFORDIV255 (unat s * 16384 + unat d * 16256 + 128 * 128) div 128 = (N - 1) div 255"
    using shiftdiv_closed by simp
  moreover have "(N - 1) div 255 < 256" using \<open>N \<le> 65280\<close> by simp
  ultimately show ?thesis
    by (simp add: composite_channel_def N_def unat_of_nat)
qed

lemma half_bounds:
  fixes s d :: nat
  assumes "s < 256" "d < 256"
  shows "(128 * s + 127 * d + 127) div 255 =
    (if d < s then (d + s + 1) div 2 else (d + s) div 2)"
proof (cases "d < s")
  case True
  define t where "t = (d + s + 1) div 2"
  have t: "2 * t \<le> d + s + 1" "d + s + 1 \<le> 2 * t + 1" by (simp_all add: t_def)
  have "(128 * s + 127 * d + 127) div 255 = t"
  proof (rule div_nat_eqI)
    show "255 * t \<le> 128 * s + 127 * d + 127" using t True by linarith
    have "128 * s + 127 * d + 127 < 255 * t + 255" using t assms by linarith
    then show "128 * s + 127 * d + 127 < 255 * Suc t" by simp
  qed
  with True show ?thesis by (simp add: t_def)
next
  case False
  define t where "t = (d + s) div 2"
  have t: "d + s = 2 * t \<or> d + s = 2 * t + 1" unfolding t_def by linarith
  have "(128 * s + 127 * d + 127) div 255 = t"
  proof (rule div_nat_eqI)
    show "255 * t \<le> 128 * s + 127 * d + 127" using t assms by linarith
    have "128 * s + 127 * d + 127 < 255 * t + 255" using t False by linarith
    then show "128 * s + 127 * d + 127 < 255 * Suc t" by simp
  qed
  with False show ?thesis by (simp add: t_def)
qed

subsection \<open>The palette\<close>

lemma seg_palette_entries:
  "list_all (\<lambda>i. seg_palette P (of_nat i) = (colors ! i ! 0, colors ! i ! 1, colors ! i ! 2))
     [0..<21]"
  by (simp add: upt_rec seg_palette_def unpack_palette_def colors_eq)

lemma seg_palette_entry:
  assumes "i < 21"
  shows "seg_palette P (of_nat i) = (colors ! i ! 0, colors ! i ! 1, colors ! i ! 2)"
  using assms seg_palette_entries [of P] by (simp add: list_all_iff)

lemma colors_rows:
  "list_all (\<lambda>i. colors ! i =
      [of_nat (i * (2 ^ 25 - 1) mod 255), of_nat (i * (2 ^ 15 - 1) mod 255),
       of_nat (i * (2 ^ 21 - 1) mod 255)])
     [0..<21]"
  by (simp add: upt_rec colors_eq)

lemma colors_formula:
  assumes "i < 21"
  shows "colors ! i =
    [of_nat (i * (2 ^ 25 - 1) mod 255), of_nat (i * (2 ^ 15 - 1) mod 255),
     of_nat (i * (2 ^ 21 - 1) mod 255)]"
  using assms colors_rows by (simp add: list_all_iff)

text \<open>
  C1. For every class index \<open>i\<close> in 0..20, row \<open>i\<close> of \<^verbatim>\<open>colors\<close>, and with it entry \<open>i\<close>
  of the palette that \<^verbatim>\<open>putpalette\<close> installs, is the triple of the channel values
  \<open>(i * k) mod 255\<close> for \<open>k = 2^25 - 1\<close>, \<open>2^15 - 1\<close>, \<open>2^21 - 1\<close>. The right-hand sides
  are computed on the natural numbers: neither the int64 product nor the cast to
  uint8 wraps.
\<close>

theorem palette_entry_formula:
  assumes "i < 21"
  shows "colors ! i =
      [of_nat (i * (2 ^ 25 - 1) mod 255), of_nat (i * (2 ^ 15 - 1) mod 255),
       of_nat (i * (2 ^ 21 - 1) mod 255)]
    \<and> seg_palette P (of_nat i) =
      (of_nat (i * (2 ^ 25 - 1) mod 255), of_nat (i * (2 ^ 15 - 1) mod 255),
       of_nat (i * (2 ^ 21 - 1) mod 255))"
  using assms by (simp add: seg_palette_entry colors_formula)

theorem palette_entry_formula_witness:
  "(3 :: nat) < 21 \<and> colors ! 3 = [3, 126, 93] \<and> seg_palette pillow_ramp 3 = (3, 126, 93)"
  using palette_entry_formula [of 3 pillow_ramp] by simp

text \<open>
  C4. The palette has 21 rows, no two of them equal, and the installed palette gives
  the class indices 0..20 pairwise distinct RGB triples.
\<close>

theorem palette_distinct:
  "length colors = 21 \<and> distinct colors
    \<and> distinct (map (\<lambda>i. seg_palette P (of_nat i)) [0..<21])"
proof -
  have "map (\<lambda>i. seg_palette P (of_nat i)) [0..<21] =
      map (\<lambda>i. (colors ! i ! 0, colors ! i ! 1, colors ! i ! 2)) [0..<21]"
    by (rule map_cong) (simp_all add: seg_palette_entry)
  then show ?thesis by (simp add: colors_eq upt_rec)
qed

subsection \<open>Rasters\<close>

lemma wf_resample_raster: "wf_raster (fst tgt) (snd tgt) (resample_raster P sz d tgt)"
  by (simp add: wf_raster_def resample_raster_def list_all_iff)

lemma wf_raster_map: "wf_raster w h d \<Longrightarrow> wf_raster w h (map (map f) d)"
  by (simp add: wf_raster_def list_all_iff)

lemma wf_label_layer:
  assumes "wf_raster cols rows g"
  shows "wf_raster W H (label_layer P (cols, rows) g (W, H))"
  using assms wf_resample_raster [of "(W, H)" P "(cols, rows)"]
  by (auto simp add: label_layer_def resized_raster_def wf_raster_map)

lemma wf_raster_nth:
  assumes "wf_raster w h d" "y < h"
  shows "y < length d" "length (d ! y) = w"
  using assms by (simp_all add: wf_raster_def list_all_length)

lemma wf_composite_raster:
  assumes "wf_raster W H px" "wf_raster W H d"
  shows "wf_raster W H (composite_raster P px d)"
  using assms
  by (auto simp add: wf_raster_def composite_raster_def base_layer_def mask_layer_def
      list_all_length)

lemma composite_raster_nth:
  assumes "wf_raster W H px" "wf_raster W H d" "x < W" "y < H"
    and "px ! y ! x = (br, bg, bb)" and "seg_palette P (d ! y ! x) = (mr, mg, mb)"
  shows "composite_raster P px d ! y ! x =
    alpha_composite_pixel (br, bg, bb, 255) (mr, mg, mb, 128)"
  using assms wf_raster_nth [of W H px y] wf_raster_nth [of W H d y]
  by (simp add: composite_raster_def base_layer_def mask_layer_def)

subsection \<open>The cast to uint8\<close>

lemma sint_mod_256: "sint (v :: 64 word) mod 256 = take_bit 8 (uint v)"
proof -
  have "take_bit 8 (sint v) = take_bit 8 (uint v)"
    by (rule bit_eqI) (auto simp add: bit_take_bit_iff bit_sint_iff bit_uint_iff min_def)
  then show ?thesis by (simp add: take_bit_eq_mod)
qed

lemma uint_ucast_byte: "uint (ucast (v :: 64 word) :: byte) = sint v mod 256"
  unfolding sint_mod_256
  by (rule bit_eqI) (auto simp add: bit_take_bit_iff bit_uint_iff bit_ucast_iff)

lemma ucast_remainder_256: "(ucast (torch_remainder v 256) :: byte) = ucast v"
proof -
  have "(ucast (word_of_int (take_bit 8 (uint v)) :: 64 word) :: byte) = ucast v"
    by (rule bit_word_eqI)
      (auto simp add: bit_ucast_iff bit_word_of_int_iff bit_take_bit_iff bit_uint_iff)
  then show ?thesis by (simp add: torch_remainder_def sint_mod_256)
qed

subsection \<open>The blend\<close>

lemma half_blend_channel: "half_blend d s (composite_channel 16384 16256 s d)"
proof -
  have "unat s < 256" "unat d < 256"
    using unsigned_less [of s, where ?'a = nat] unsigned_less [of d, where ?'a = nat]
    by simp_all
  then have "unat (composite_channel 16384 16256 s d) =
      (if unat d < unat s then (unat d + unat s + 1) div 2 else (unat d + unat s) div 2)"
    using half_bounds [of "unat s" "unat d"] by (simp only: composite_channel_half)
  then show ?thesis by (simp add: half_blend_def split: if_splits)
qed

text \<open>
  C2. On an RGB base image and a label grid, the call returns, and every pixel (x, y) of
  the composite is Pillow's composite of the base pixel at alpha 255 under the palette
  colour of the resized label at (x, y) at alpha 128. Each colour channel of it is the
  mean of the base and the mask channel rounded down or up (it is
  \<open>(128 * mask + 127 * base + 127) div 255\<close>: the opacity set is 128 of 255, and a
  half goes to the side of the mask), the alpha is 255, and white under black gives 127
  in each channel.
\<close>

theorem composite_pixel_half_blend:
  assumes "ai < length h" "ag < length h"
    and "h ! ai = Image (ImageRGB W H px)"
    and "h ! ag = Tensor rows cols g"
    and "wf_raster W H px" "wf_raster cols rows g"
    and "x < W" "y < H"
    and "px ! y ! x = (br, bg, bb)"
    and "seg_palette P (label_layer P (cols, rows) g (W, H) ! y ! x) = (mr, mg, mb)"
  shows "\<exists>a h' d cr cg cb.
      display_segmentation P ai ag h = (Inr a, h')
    \<and> h' ! a = Image (ImageRGBA W H d)
    \<and> d ! y ! x = alpha_composite_pixel (br, bg, bb, 255) (mr, mg, mb, 128)
    \<and> d ! y ! x = (cr, cg, cb, 255)
    \<and> half_blend br mr cr \<and> half_blend bg mg cg \<and> half_blend bb mb cb
    \<and> unat cr = (128 * unat mr + 127 * unat br + 127) div 255
    \<and> unat cg = (128 * unat mg + 127 * unat bg + 127) div 255
    \<and> unat cb = (128 * unat mb + 127 * unat bb + 127) div 255
    \<and> alpha_composite_pixel (255, 255, 255, 255) (0, 0, 0, 128) = (127, 127, 127, 255)"
proof -
  let ?L = "label_layer P (cols, rows) g (W, H)"
  have ok: "(cols, rows) = (W, H) \<or> (0 < W \<and> 0 < H)" using assms(7,8) by simp
  have px: "composite_raster P px ?L ! y ! x =
      alpha_composite_pixel (br, bg, bb, 255) (mr, mg, mb, 128)"
    by (rule composite_raster_nth [OF assms(5) wf_label_layer [OF assms(6)] assms(7-10)])
  have white: "composite_channel 16384 16256 0 255 = 127"
    by (simp add: SHIFTFORDIV255_def composite_channel_def)
  show ?thesis
    unfolding display_segmentation_run [OF assms(1-4) ok]
    by (simp add: px white alpha_composite_pixel_half half_blend_channel
        composite_channel_half del: alpha_composite_pixel.simps)
qed

lemma seg_palette_ramp_0: "seg_palette pillow_ramp 0 = (0, 0, 0)"
  by (simp add: seg_palette_def unpack_palette_def colors_eq)

theorem composite_pixel_half_blend_witness:
  "\<exists>a h' d. display_segmentation pillow_ramp 0 1
        [Image (ImageRGB 1 1 [[(255, 255, 255)]]), Tensor 1 1 [[0]]] = (Inr a, h')
     \<and> h' ! a = Image (ImageRGBA 1 1 d) \<and> d ! 0 ! 0 = (127, 127, 127, 255)"
  using composite_pixel_half_blend [of 0 "[Image (ImageRGB 1 1 [[(255, 255, 255)]]), Tensor 1 1 [[0]]]"
      1 1 1 "[[(255, 255, 255)]]" 1 1 "[[0]]" 0 0 255 255 255 pillow_ramp 0 0 0]
  by (auto simp add: wf_raster_def label_layer_def resized_raster_def seg_palette_ramp_0
      simp del: alpha_composite_pixel.simps)

subsection \<open>Size of the composite, empty inputs\<close>

text \<open>
  C3. For every RGB base image of size (W, H) and every label grid, of whatever
  resolution, a call that returns returns an RGBA image of size (W, H) whose raster
  has H rows of W pixels: the label layer is brought to the base image's size before
  it is composited. The call returns unless the base image is empty and the grid has
  another size, where \<^verbatim>\<open>resize\<close> raises ValueError.
\<close>

theorem composite_has_base_size:
  assumes "ai < length h" "ag < length h"
    and "h ! ai = Image (ImageRGB W H px)"
    and "h ! ag = Tensor rows cols g"
    and "wf_raster W H px" "wf_raster cols rows g"
  shows "(\<exists>a h' d. display_segmentation P ai ag h = (Inr a, h')
        \<and> h' ! a = Image (ImageRGBA W H d)
        \<and> image_size (ImageRGBA W H d) = (W, H) \<and> wf_raster W H d)
    \<or> (fst (display_segmentation P ai ag h) = Inl ValueError
        \<and> (W = 0 \<or> H = 0) \<and> (cols, rows) \<noteq> (W, H))"
proof (cases "(cols, rows) = (W, H) \<or> (0 < W \<and> 0 < H)")
  case True
  have "wf_raster W H (composite_raster P px (label_layer P (cols, rows) g (W, H)))"
    using assms(5,6) by (intro wf_composite_raster wf_label_layer)
  then show ?thesis
    by (simp add: display_segmentation_run [OF assms(1-4) True])
next
  case False
  then have "(cols, rows) \<noteq> (W, H)" "W = 0 \<or> H = 0" by auto
  then show ?thesis
    by (simp add: display_segmentation_fail [OF assms(1-4)])
qed

theorem composite_has_base_size_witness:
  "\<exists>a h' d. display_segmentation pillow_ramp 0 1
        [Image (ImageRGB 2 3 [[(1, 2, 3), (4, 5, 6)], [(7, 8, 9), (10, 11, 12)],
           [(13, 14, 15), (16, 17, 18)]]), Tensor 1 1 [[12]]] = (Inr a, h')
     \<and> h' ! a = Image (ImageRGBA 2 3 d) \<and> wf_raster 2 3 d"
  using composite_has_base_size [of 0 "[Image (ImageRGB 2 3 [[(1, 2, 3), (4, 5, 6)],
      [(7, 8, 9), (10, 11, 12)], [(13, 14, 15), (16, 17, 18)]]), Tensor 1 1 [[12]]]"
      1 2 3 "[[(1, 2, 3), (4, 5, 6)], [(7, 8, 9), (10, 11, 12)], [(13, 14, 15), (16, 17, 18)]]"
      1 1 "[[12]]" pillow_ramp]
  by (auto simp add: wf_raster_def)

text \<open>
  C5, as stated, fails: display_segmentation validates nothing and has no error of its
  own. On an empty (0 by 0) base image and an empty (0 by 0) label grid
  \<^verbatim>\<open>resize\<close> finds the size unchanged and copies, and the call returns an
  empty composite.
\<close>

theorem empty_inputs_return_a_composite:
  "fst (display_segmentation pillow_ramp 0 1 [Image (ImageRGB 0 0 []), Tensor 0 0 []]) = Inr 7
   \<and> snd (display_segmentation pillow_ramp 0 1 [Image (ImageRGB 0 0 []), Tensor 0 0 []]) ! 7
       = Image (ImageRGBA 0 0 [])"
  by (simp add: call_defs py_defs length_concat_colors)

text \<open>
  C5, amended. When the base image has zero area and the label grid has another size
  than the base image, the call fails with the ValueError of \<^verbatim>\<open>resize\<close>
  and returns no composite.
\<close>

theorem empty_base_fails_in_resize:
  assumes "ai < length h" "ag < length h"
    and "h ! ai = Image (ImageRGB W H px)"
    and "h ! ag = Tensor rows cols g"
    and "W = 0 \<or> H = 0" and "(cols, rows) \<noteq> (W, H)"
  shows "fst (display_segmentation P ai ag h) = Inl ValueError"
  by (simp add: display_segmentation_fail [OF assms(1-4) assms(6) assms(5)])

theorem empty_base_fails_in_resize_witness:
  "fst (display_segmentation pillow_ramp 0 1 [Image (ImageRGB 0 0 []), Tensor 1 1 [[12]]])
     = Inl ValueError"
  using empty_base_fails_in_resize [of 0 "[Image (ImageRGB 0 0 []), Tensor 1 1 [[12]]]"
      1 0 0 "[]" 1 1 "[[12]]" pillow_ramp]
  by simp

subsection \<open>Determinism and frame\<close>

text \<open>
  C6. Two invocations on the same base image and the same label grid, wherever the two
  objects live and whatever else the heap holds, either both return, and then the two
  composites are equal, or both raise the same error.
\<close>

theorem same_inputs_same_composite:
  assumes "ai < length h" "ag < length h"
    and "h ! ai = Image (ImageRGB W H px)"
    and "h ! ag = Tensor rows cols g"
    and "bi < length k" "bg < length k"
    and "k ! bi = Image (ImageRGB W H px)"
    and "k ! bg = Tensor rows cols g"
  shows "(\<exists>a b h' k'. display_segmentation P ai ag h = (Inr a, h')
        \<and> display_segmentation P bi bg k = (Inr b, k') \<and> h' ! a = k' ! b)
    \<or> (\<exists>e h' k'. display_segmentation P ai ag h = (Inl e, h')
        \<and> display_segmentation P bi bg k = (Inl e, k'))"
proof (cases "(cols, rows) = (W, H) \<or> (0 < W \<and> 0 < H)")
  case True
  show ?thesis
    by (simp add: display_segmentation_run [OF assms(1-4) True]
        display_segmentation_run [OF assms(5-8) True])
next
  case False
  then have *: "(cols, rows) \<noteq> (W, H)" "W = 0 \<or> H = 0" by auto
  show ?thesis
    by (simp add: display_segmentation_fail [OF assms(1-4) *]
        display_segmentation_fail [OF assms(5-8) *])
qed

text \<open>The second call runs on the heap the first one leaves behind.\<close>

theorem same_inputs_same_composite_witness:
  "\<exists>a b h' k'. display_segmentation pillow_ramp 0 1
        [Image (ImageRGB 1 1 [[(255, 255, 255)]]), Tensor 1 1 [[12]]] = (Inr a, h')
     \<and> display_segmentation pillow_ramp 0 1 h' = (Inr b, k')
     \<and> a \<noteq> b \<and> k' ! b = k' ! a \<and> k' ! a = h' ! a"
proof -
  let ?h = "[Image (ImageRGB 1 1 [[(255, 255, 255)]]), Tensor 1 1 [[12]]]"
  let ?h' = "snd (display_segmentation pillow_ramp 0 1 ?h)"
  have typed: "0 < length ?h" "1 < length ?h"
    "?h ! 0 = Image (ImageRGB 1 1 [[(255, 255, 255)]])" "?h ! 1 = Tensor 1 1 [[12]]"
    by simp_all
  have ok: "(1 :: nat, 1 :: nat) = (1, 1) \<or> (0 :: nat) < 1 \<and> (0 :: nat) < 1" by simp
  note r1 = display_segmentation_run [OF typed ok, of pillow_ramp]
  have typed': "0 < length ?h'" "1 < length ?h'"
    "?h' ! 0 = Image (ImageRGB 1 1 [[(255, 255, 255)]])" "?h' ! 1 = Tensor 1 1 [[12]]"
    unfolding r1 by simp_all
  note r2 = display_segmentation_run [OF typed' ok, of pillow_ramp, unfolded r1 snd_conv, simplified]
  from same_inputs_same_composite [OF typed typed', of pillow_ramp]
  show ?thesis unfolding r1 snd_conv by (simp add: r2 nth_append)
qed

text \<open>
  C7. A call, whether it returns or raises, leaves every object that existed before it
  as it was, the base image and the label grid among them: it only adds objects.
  \<^verbatim>\<open>putalpha\<close>, which writes in place, is applied to the copy of the base image
  and to the converted mask only.
\<close>

theorem inputs_unchanged:
  assumes "ai < length h" "ag < length h"
    and "h ! ai = Image (ImageRGB W H px)"
    and "h ! ag = Tensor rows cols g"
  shows "snd (display_segmentation P ai ag h) ! ai = h ! ai
    \<and> snd (display_segmentation P ai ag h) ! ag = h ! ag
    \<and> take (length h) (snd (display_segmentation P ai ag h)) = h"
proof (cases "(cols, rows) = (W, H) \<or> (0 < W \<and> 0 < H)")
  case True
  show ?thesis
    using assms(1,2) by (simp add: display_segmentation_run [OF assms True] nth_append)
next
  case False
  then have *: "(cols, rows) \<noteq> (W, H)" "W = 0 \<or> H = 0" by auto
  show ?thesis
    using assms(1,2) by (simp add: display_segmentation_fail [OF assms *] nth_append)
qed

theorem inputs_unchanged_witness:
  "snd (display_segmentation pillow_ramp 0 1
      [Image (ImageRGB 1 1 [[(255, 255, 255)]]), Tensor 1 1 [[12]]]) ! 0
     = Image (ImageRGB 1 1 [[(255, 255, 255)]])
   \<and> snd (display_segmentation pillow_ramp 0 1
      [Image (ImageRGB 1 1 [[(255, 255, 255)]]), Tensor 1 1 [[12]]]) ! 1
     = Tensor 1 1 [[12]]"
  using inputs_unchanged [of 0 "[Image (ImageRGB 1 1 [[(255, 255, 255)]]), Tensor 1 1 [[12]]]"
      1 1 1 "[[(255, 255, 255)]]" 1 1 "[[12]]" pillow_ramp]
  by simp

subsection \<open>The steps of the overlay\<close>

lemma alpha_base_layer: "list_all (list_all (\<lambda>p. alpha_of p = 255)) (base_layer px)"
  by (auto simp add: base_layer_def alpha_of_def list_all_iff)

lemma alpha_mask_layer: "list_all (list_all (\<lambda>p. alpha_of p = 128)) (mask_layer P d)"
  by (auto simp add: mask_layer_def alpha_of_def list_all_iff split: prod.splits)

lemma rgb_base_layer: "map (map (\<lambda>(r, g, b, a). (r, g, b))) (base_layer px) = px"
  by (simp add: base_layer_def comp_def case_prod_unfold map_idI)

text \<open>
  C8. A call that returns has made of the base image an RGBA image with the same
  colours and alpha 255 everywhere (\<^verbatim>\<open>alpha_image\<close>), has set alpha 128 on every
  pixel of the resized, colour-mapped mask (\<^verbatim>\<open>r\<close>), and returns the alpha
  composite of the mask over the base, an RGBA image.
\<close>

theorem overlay_steps:
  assumes "ai < length h" "ag < length h"
    and "h ! ai = Image (ImageRGB W H px)"
    and "h ! ag = Tensor rows cols g"
    and "(cols, rows) = (W, H) \<or> (0 < W \<and> 0 < H)"
  shows "\<exists>a h' base mask.
      display_segmentation P ai ag h = (Inr a, h')
    \<and> h' ! (length h + 3) = Image (ImageRGBA W H base)
    \<and> map (map (\<lambda>(r, g, b, a). (r, g, b))) base = px
    \<and> list_all (list_all (\<lambda>p. alpha_of p = 255)) base
    \<and> h' ! (length h + 4) = Image (ImageRGBA W H mask)
    \<and> mask = mask_layer P (label_layer P (cols, rows) g (W, H))
    \<and> list_all (list_all (\<lambda>p. alpha_of p = 128)) mask
    \<and> h' ! a = Image (ImageRGBA W H (map2 (map2 alpha_composite_pixel) base mask))"
  by (simp add: display_segmentation_run [OF assms] nth_append alpha_base_layer
      alpha_mask_layer rgb_base_layer composite_raster_def)

theorem overlay_steps_witness:
  "\<exists>a h'. display_segmentation pillow_ramp 0 1
        [Image (ImageRGB 1 1 [[(255, 255, 255)]]), Tensor 1 1 [[12]]] = (Inr a, h')
     \<and> h' ! 5 = Image (ImageRGBA 1 1 [[(255, 255, 255, 255)]])
     \<and> h' ! 6 = Image (ImageRGBA 1 1 [[(12, 249, 117, 128)]])
     \<and> h' ! a = Image (ImageRGBA 1 1 [[(133, 252, 186, 255)]])"
  using overlay_steps [of 0 "[Image (ImageRGB 1 1 [[(255, 255, 255)]]), Tensor 1 1 [[12]]]"
      1 1 1 "[[(255, 255, 255)]]" 1 1 "[[12]]" pillow_ramp]
  by (auto simp add: mask_layer_def label_layer_def resized_raster_def seg_palette_def
      unpack_palette_def colors_eq SHIFTFORDIV255_def composite_channel_def alpha_of_def)

subsection \<open>Labels outside the palette\<close>

text \<open>\<^verbatim>\<open>putpalette\<close> receives 21 entries; the entries from 21 on are those of the
  fresh palette.\<close>

lemma seg_palette_undefined:
  assumes "21 \<le> unat v"
  shows "seg_palette P v = new_palette P v"
  using assms by (simp add: seg_palette_def unpack_palette_def length_concat_colors)

text \<open>
  C9, as stated, fails where a fresh palette is the grey ramp: on a white 1 by 1 base
  image the label 21 is drawn with the grey (21, 21, 21) and gives 138 in each
  channel, while class 0, drawn with black, gives 127.
\<close>

theorem grey_ramp_label_21_is_not_black:
  "snd (display_segmentation pillow_ramp 0 1
      [Image (ImageRGB 1 1 [[(255, 255, 255)]]), Tensor 1 1 [[21]]]) ! 7
     = Image (ImageRGBA 1 1 [[(138, 138, 138, 255)]])
   \<and> snd (display_segmentation pillow_ramp 0 1
      [Image (ImageRGB 1 1 [[(255, 255, 255)]]), Tensor 1 1 [[0]]]) ! 7
     = Image (ImageRGBA 1 1 [[(127, 127, 127, 255)]])"
  by (simp add: call_defs py_defs length_concat_colors unpack_palette_def colors_eq
      pillow_ramp_def grey_ramp_def SHIFTFORDIV255_def composite_channel_def)

text \<open>
  C9, amended. Where the resized label at a pixel is a value \<open>v\<close> from 21 to 255, the
  call does not fail, and the pixel is the composite of the base pixel under the entry
  \<open>v\<close> of a fresh palette, which the notebook never sets: black, as for class 0, where
  the library fills a fresh palette with zeroes.
\<close>

theorem undefined_label_colour:
  assumes "ai < length h" "ag < length h"
    and "h ! ai = Image (ImageRGB W H px)"
    and "h ! ag = Tensor rows cols g"
    and "wf_raster W H px" "wf_raster cols rows g"
    and "x < W" "y < H"
    and "px ! y ! x = (br, bg, bb)"
    and "label_layer P (cols, rows) g (W, H) ! y ! x = v" and "21 \<le> unat v"
    and "new_palette P v = (mr, mg, mb)"
  shows "\<exists>a h' d.
      display_segmentation P ai ag h = (Inr a, h')
    \<and> h' ! a = Image (ImageRGBA W H d)
    \<and> d ! y ! x = alpha_composite_pixel (br, bg, bb, 255) (mr, mg, mb, 128)"
proof -
  let ?L = "label_layer P (cols, rows) g (W, H)"
  have ok: "(cols, rows) = (W, H) \<or> (0 < W \<and> 0 < H)" using assms(7,8) by simp
  have "seg_palette P (?L ! y ! x) = (mr, mg, mb)"
    using assms(10-12) by (simp add: seg_palette_undefined)
  then have "composite_raster P px ?L ! y ! x =
      alpha_composite_pixel (br, bg, bb, 255) (mr, mg, mb, 128)"
    by (rule composite_raster_nth [OF assms(5) wf_label_layer [OF assms(6)] assms(7-9)])
  then show ?thesis
    by (simp add: display_segmentation_run [OF assms(1-4) ok]
        del: alpha_composite_pixel.simps)
qed

theorem undefined_label_colour_witness:
  "\<exists>a h' d. display_segmentation pillow_zero 0 1
        [Image (ImageRGB 1 1 [[(255, 255, 255)]]), Tensor 1 1 [[21]]] = (Inr a, h')
     \<and> h' ! a = Image (ImageRGBA 1 1 d) \<and> d ! 0 ! 0 = (127, 127, 127, 255)"
  using undefined_label_colour [of 0 "[Image (ImageRGB 1 1 [[(255, 255, 255)]]), Tensor 1 1 [[21]]]"
      1 1 1 "[[(255, 255, 255)]]" 1 1 "[[21]]" 0 0 255 255 255 pillow_zero 21 0 0 0]
  by (auto simp add: wf_raster_def label_layer_def resized_raster_def pillow_zero_def
      zero_palette_def SHIFTFORDIV255_def composite_channel_def)

lemma byte_of_mod_256: "(word_of_int (sint (v :: 64 word) mod 256) :: byte) = ucast v"
  unfolding sint_mod_256
  by (rule bit_word_eqI)
    (auto simp add: bit_ucast_iff bit_word_of_int_iff bit_take_bit_iff bit_uint_iff)

lemma label_layer_mod_256:
  "resized_raster P sz (map (map (\<lambda>v. word_of_int (sint (v :: 64 word) mod 256))) g) tgt
     = label_layer P sz g tgt"
  by (simp add: label_layer_def byte_of_mod_256)

lemma label_layer_same_size:
  assumes "wf_raster W H g" "x < W" "y < H"
  shows "label_layer P (W, H) g (W, H) ! y ! x = ucast (g ! y ! x)"
  using assms wf_raster_nth [of W H g y]
  by (simp add: label_layer_def resized_raster_def)

text \<open>
  C10. The labels reach Pillow through the cast to uint8 only, and the cast of a label
  \<open>v\<close> is the byte of value \<open>v mod 256\<close>. Replacing every label by its remainder
  modulo 256 changes neither the outcome of the call nor any object it creates, the
  composite among them. And the call returns and draws: with the grid of the bytes
  \<open>v mod 256\<close> brought to the base image's size, the pixel (x, y) of the composite is
  the base pixel under the palette entry of the label found there; where the grid has
  the base image's size already, that is the palette entry of \<open>v mod 256\<close> for the
  label \<open>v\<close> at (x, y).
\<close>

theorem labels_taken_mod_256:
  assumes "ai < length h" "ag < length h"
    and "h ! ai = Image (ImageRGB W H px)"
    and "h ! ag = Tensor rows cols g"
  shows "fst (display_segmentation P ai ag
             (h[ag := Tensor rows cols (map (map (\<lambda>v. torch_remainder v 256)) g)]))
       = fst (display_segmentation P ai ag h)
    \<and> drop (length h) (snd (display_segmentation P ai ag
             (h[ag := Tensor rows cols (map (map (\<lambda>v. torch_remainder v 256)) g)])))
       = drop (length h) (snd (display_segmentation P ai ag h))
    \<and> uint (ucast v :: byte) = sint (v :: 64 word) mod 256
    \<and> (wf_raster W H px \<and> wf_raster cols rows g \<and> x < W \<and> y < H
        \<and> px ! y ! x = (br, bg, bb)
        \<and> seg_palette P (resized_raster P (cols, rows)
              (map (map (\<lambda>v. word_of_int (sint v mod 256))) g) (W, H) ! y ! x) = (mr, mg, mb)
       \<longrightarrow> (\<exists>a h' d. display_segmentation P ai ag h = (Inr a, h')
              \<and> h' ! a = Image (ImageRGBA W H d)
              \<and> d ! y ! x = alpha_composite_pixel (br, bg, bb, 255) (mr, mg, mb, 128))
           \<and> ((cols, rows) = (W, H)
              \<longrightarrow> seg_palette P (word_of_int (sint (g ! y ! x) mod 256)) = (mr, mg, mb)))"
proof -
  let ?g = "map (map (\<lambda>v. torch_remainder v 256)) g"
  let ?k = "h[ag := Tensor rows cols ?g]"
  let ?L = "label_layer P (cols, rows) g (W, H)"
  have ne: "ai \<noteq> ag" using assms(3,4) by auto
  have typed: "ai < length ?k" "ag < length ?k" "?k ! ai = Image (ImageRGB W H px)"
    "?k ! ag = Tensor rows cols ?g"
    using assms ne by simp_all
  have bytes: "map (map ucast) ?g = (map (map ucast) g :: byte raster)"
    by (simp add: comp_def ucast_remainder_256)
  have layer: "label_layer P (cols, rows) ?g (W, H) = ?L"
    by (simp only: label_layer_def bytes)
  have same: "fst (display_segmentation P ai ag ?k) = fst (display_segmentation P ai ag h)
    \<and> drop (length h) (snd (display_segmentation P ai ag ?k))
       = drop (length h) (snd (display_segmentation P ai ag h))"
  proof (cases "(cols, rows) = (W, H) \<or> (0 < W \<and> 0 < H)")
    case True
    show ?thesis
      by (simp add: display_segmentation_run [OF assms True]
          display_segmentation_run [OF typed True] bytes layer ucast_remainder_256)
  next
    case False
    then have *: "(cols, rows) \<noteq> (W, H)" "W = 0 \<or> H = 0" by auto
    show ?thesis
      by (simp add: display_segmentation_fail [OF assms *]
          display_segmentation_fail [OF typed *] bytes ucast_remainder_256)
  qed
  have drawn: "(\<exists>a h' d. display_segmentation P ai ag h = (Inr a, h')
        \<and> h' ! a = Image (ImageRGBA W H d)
        \<and> d ! y ! x = alpha_composite_pixel (br, bg, bb, 255) (mr, mg, mb, 128))
      \<and> ((cols, rows) = (W, H)
        \<longrightarrow> seg_palette P (word_of_int (sint (g ! y ! x) mod 256)) = (mr, mg, mb))"
    if wf: "wf_raster W H px" "wf_raster cols rows g" and xy: "x < W" "y < H"
      and b: "px ! y ! x = (br, bg, bb)" and m: "seg_palette P (?L ! y ! x) = (mr, mg, mb)"
  proof -
    have ok: "(cols, rows) = (W, H) \<or> (0 < W \<and> 0 < H)" using xy by simp
    have "composite_raster P px ?L ! y ! x =
        alpha_composite_pixel (br, bg, bb, 255) (mr, mg, mb, 128)"
      by (rule composite_raster_nth [OF wf(1) wf_label_layer [OF wf(2)] xy b m])
    then have 1: "\<exists>a h' d. display_segmentation P ai ag h = (Inr a, h')
        \<and> h' ! a = Image (ImageRGBA W H d)
        \<and> d ! y ! x = alpha_composite_pixel (br, bg, bb, 255) (mr, mg, mb, 128)"
      by (simp add: display_segmentation_run [OF assms ok]
          del: alpha_composite_pixel.simps)
    have 2: "seg_palette P (word_of_int (sint (g ! y ! x) mod 256)) = (mr, mg, mb)"
      if "(cols, rows) = (W, H)"
      using that m label_layer_same_size [of W H g x y P] wf(2) xy
      by (simp add: byte_of_mod_256)
    from 1 2 show ?thesis by blast
  qed
  show ?thesis
    using same drawn by (simp only: label_layer_mod_256 uint_ucast_byte) blast
qed

theorem labels_taken_mod_256_witness:
  "fst (display_segmentation pillow_ramp 0 1
       [Image (ImageRGB 1 1 [[(255, 255, 255)]]), Tensor 1 1 [[12]]])
     = fst (display_segmentation pillow_ramp 0 1
       [Image (ImageRGB 1 1 [[(255, 255, 255)]]), Tensor 1 1 [[268]]])
   \<and> drop 2 (snd (display_segmentation pillow_ramp 0 1
       [Image (ImageRGB 1 1 [[(255, 255, 255)]]), Tensor 1 1 [[12]]]))
     = drop 2 (snd (display_segmentation pillow_ramp 0 1
       [Image (ImageRGB 1 1 [[(255, 255, 255)]]), Tensor 1 1 [[268]]]))
   \<and> (\<exists>a h' d. display_segmentation pillow_ramp 0 1
         [Image (ImageRGB 1 1 [[(255, 255, 255)]]), Tensor 1 1 [[268]]] = (Inr a, h')
       \<and> h' ! a = Image (ImageRGBA 1 1 d) \<and> d ! 0 ! 0 = (133, 252, 186, 255))
   \<and> seg_palette pillow_ramp (word_of_int (sint (268 :: 64 word) mod 256)) = (12, 249, 117)"
proof -
  let ?h = "[Image (ImageRGB 1 1 [[(255, 255, 255)]]), Tensor 1 1 [[268 :: 64 word]]]"
  have b: "(word_of_int (sint (268 :: 64 word) mod 256) :: byte) = 12" by simp
  have e: "seg_palette pillow_ramp 12 = (12, 249, 117)"
    by (simp add: seg_palette_def unpack_palette_def colors_eq)
  have m: "seg_palette pillow_ramp (resized_raster pillow_ramp (1, 1)
      (map (map (\<lambda>v. word_of_int (sint v mod 256))) [[268 :: 64 word]]) (1, 1) ! 0 ! 0)
      = (12, 249, 117)"
    by (simp add: resized_raster_def e)
  have c: "alpha_composite_pixel (255, 255, 255, 255) (12, 249, 117, 128)
      = (133, 252, 186, 255)"
    by (simp add: SHIFTFORDIV255_def composite_channel_def)
  have r: "torch_remainder 268 256 = 12" by (simp add: torch_remainder_def)
  have wf: "wf_raster 1 1 [[(255 :: byte, 255 :: byte, 255 :: byte)]]"
    "wf_raster 1 1 [[268 :: 64 word]]"
    by (simp_all add: wf_raster_def)
  from labels_taken_mod_256 [where ai = 0 and ag = 1 and h = ?h
      and W = 1 and H = 1 and px = "[[(255, 255, 255)]]" and rows = 1 and cols = 1
      and g = "[[268]]" and P = pillow_ramp and v = 0 and x = 0 and y = 0
      and br = 255 and bg = 255 and bb = 255 and mr = 12 and mg = 249 and mb = 117]
    wf m
  show ?thesis
    by (simp add: r b e c numeral_2_eq_2 del: alpha_composite_pixel.simps) 
qed

end
